theory Spec2Isabelle
  imports
    Complex_Main
    "HOL-Library.AList"
    "HOL-Library.Sublist"
    "HOL-Library.Char_ord"
    "HOL-Library.List_Lexorder"
begin

section \<open>Errors\<close>

text \<open>
  Every exception the two modules can raise, directly or through the libraries they call,
  is a value of one type. An operation returns either such an error or its result.
\<close>

datatype error =
    AssertionError
  | AttributeError
  | UnboundLocalError
  | IndexError
  | KeyError
  | ValueError
  | TypeError
  | RuntimeError
  | FileExistsError
  | FileNotFoundError
  | IsADirectoryError
  | NotADirectoryError
  | BadZipFile
  | FSPathExistNotDir
  | ContainsArrayError
  | ContainsGroupError

section \<open>The loss wrapper (\<^verbatim>\<open>utils/loss.py\<close>)\<close>

subsection \<open>Tensors\<close>

text \<open>
  A tensor element is a finite real number or NaN. Rounding and the infinities are not
  modelled: the arithmetic is exact. A tensor is the list of its elements; two tensors of
  the same shape are two lists of the same length, read in the same order.
\<close>

datatype num = Val real | NaN

type_synonym tensor = "num list"

text \<open>\<^verbatim>\<open>Tensor.nan_to_num(v)\<close>: NaN becomes \<open>v\<close>, every other element is kept.\<close>

fun nan_to_num1 :: "real \<Rightarrow> num \<Rightarrow> num" where
  "nan_to_num1 v NaN = Val v"
| "nan_to_num1 v (Val r) = Val r"

definition nan_to_num :: "real \<Rightarrow> tensor \<Rightarrow> tensor" where
  "nan_to_num v t = map (nan_to_num1 v) t"

text \<open>\<^verbatim>\<open>Tensor.isnan()\<close> and \<^verbatim>\<open>Tensor.logical_not()\<close> give boolean tensors.\<close>

definition isnan :: "tensor \<Rightarrow> bool list" where
  "isnan t = map (\<lambda>x. x = NaN) t"

definition logical_not :: "bool list \<Rightarrow> bool list" where
  "logical_not m = map Not m"

text \<open>
  The product of a float tensor and a boolean tensor: \<open>True\<close> counts as 1 and \<open>False\<close> as
  0, and NaN times anything is NaN. Tensors of one length are multiplied position by
  position, a tensor of one element is broadcast, and any other pair of lengths is a
  RuntimeError.
\<close>

fun mul_bool :: "num \<Rightarrow> bool \<Rightarrow> num" where
  "mul_bool NaN b = NaN"
| "mul_bool (Val r) b = Val (r * (if b then 1 else 0))"

definition tensor_mul :: "tensor \<Rightarrow> bool list \<Rightarrow> error + tensor" where
  "tensor_mul l m =
     (if length l = length m then Inr (map2 mul_bool l m)
      else if length m = 1 then Inr (map (\<lambda>x. mul_bool x (hd m)) l)
      else if length l = 1 then Inr (map (\<lambda>b. mul_bool (hd l) b) m)
      else Inl RuntimeError)"

text \<open>
  \<^verbatim>\<open>Tensor.nanmean()\<close>: the mean of the elements that are not NaN; NaN when there is
  none. \<^verbatim>\<open>Tensor.mean()\<close>: the mean of all elements, NaN as soon as one is NaN or the
  tensor is empty.
\<close>

fun finite_vals :: "tensor \<Rightarrow> real list" where
  "finite_vals [] = []"
| "finite_vals (NaN # xs) = finite_vals xs"
| "finite_vals (Val r # xs) = r # finite_vals xs"

definition nanmean :: "tensor \<Rightarrow> num" where
  "nanmean t =
     (let vs = finite_vals t
      in if vs = [] then NaN else Val (sum_list vs / real (length vs)))"

definition mean :: "tensor \<Rightarrow> num" where
  "mean t =
     (if t = [] \<or> NaN \<in> set t then NaN
      else Val (sum_list (finite_vals t) / real (length t)))"

subsection \<open>CellMapLossWrapper\<close>

text \<open>
  Keyword arguments are a Python dict: an association list in insertion order.
  Assigning to a key replaces its value in place, or appends the key
  (\<^const>\<open>AList.update\<close>).
\<close>

datatype pyval = PyStr string | PyNum real | PyBool bool | PyNone

type_synonym kwargs = "(string \<times> pyval) list"

text \<open>
  A loss function, once constructed, maps outputs and target to a tensor of losses.
  The class \<open>loss_fn\<close> handed to the wrapper is its constructor: from keyword arguments
  to a loss function, or an error (a keyword it does not know).
\<close>

type_synonym loss = "tensor \<Rightarrow> tensor \<Rightarrow> tensor"

type_synonym loss_class = "kwargs \<Rightarrow> error + loss"

record CellMapLossWrapper =
  kwargs :: kwargs
  loss_fn :: loss

text \<open>
  \<^verbatim>\<open>
  def __init__(self, loss_fn, **kwargs):
      super().__init__()
      self.kwargs = kwargs
      self.kwargs["reduction"] = "none"
      self.loss_fn = loss_fn(**self.kwargs)
  \<close>
\<close>

definition init :: "loss_class \<Rightarrow> kwargs \<Rightarrow> error + CellMapLossWrapper" where
  "init cls kw =
     (let kw' = AList.update ''reduction'' (PyStr ''none'') kw
      in case cls kw' of
           Inl e \<Rightarrow> Inl e
         | Inr f \<Rightarrow> Inr \<lparr>kwargs = kw', loss_fn = f\<rparr>)"

text \<open>
  \<^verbatim>\<open>
  def calc_loss(self, outputs, target):
      loss = self.loss_fn(outputs, target.nan_to_num(0))
      loss = (loss * target.isnan().logical_not()).nanmean()
      return loss
  \<close>
\<close>

definition calc_loss :: "CellMapLossWrapper \<Rightarrow> tensor \<Rightarrow> tensor \<Rightarrow> error + num" where
  "calc_loss self outputs target =
     (let loss = loss_fn self outputs (nan_to_num 0 target)
      in case tensor_mul loss (logical_not (isnan target)) of
           Inl e \<Rightarrow> Inl e
         | Inr masked \<Rightarrow> Inr (nanmean masked))"

text \<open>
  \<^verbatim>\<open>torch.nn.MSELoss\<close>, the loss class of the examples: with \<^verbatim>\<open>reduction="none"\<close> the
  squared difference at every position, with \<^verbatim>\<open>reduction="mean"\<close> (the default) their
  mean, as a tensor of one element. It knows no keyword but \<^verbatim>\<open>reduction\<close>.
\<close>

fun sq_diff :: "num \<Rightarrow> num \<Rightarrow> num" where
  "sq_diff (Val a) (Val b) = Val ((a - b) * (a - b))"
| "sq_diff _ _ = NaN"

definition MSELoss :: loss_class where
  "MSELoss kw =
     (if \<exists>k \<in> set (map fst kw). k \<noteq> ''reduction'' then Inl TypeError
      else case map_of kw ''reduction'' of
             Some (PyStr r) \<Rightarrow>
               (if r = ''none'' then Inr (\<lambda>outputs target. map2 sq_diff outputs target)
                else if r = ''mean'' then Inr (\<lambda>outputs target. [mean (map2 sq_diff outputs target)])
                else Inl ValueError)
           | Some _ \<Rightarrow> Inl ValueError
           | None \<Rightarrow> Inr (\<lambda>outputs target. [mean (map2 sq_diff outputs target)]))"

text \<open>
  The loss the wrapper's documentation describes, written from its words and not from the
  code: the element-wise loss "averaged across the non-NaN values" of the target, that
  is over exactly the positions where the target is not NaN.
\<close>

fun valid_losses :: "tensor \<Rightarrow> tensor \<Rightarrow> tensor" where
  "valid_losses (l # ls) (t # ts) = (if t = NaN then valid_losses ls ts else l # valid_losses ls ts)"
| "valid_losses _ _ = []"

definition documented_loss :: "loss \<Rightarrow> tensor \<Rightarrow> tensor \<Rightarrow> num" where
  "documented_loss f outputs target =
     mean (valid_losses (f outputs (nan_to_num 0 target)) target)"

section \<open>Paths and the file system\<close>

text \<open>
  A \<^verbatim>\<open>UPath\<close> is the list of its components; the empty list is the working directory
  \<^verbatim>\<open>"."\<close>. Paths are compared component by component: \<^verbatim>\<open>".."\<close> and symbolic links are
  not resolved.
\<close>

type_synonym path = "string list"

text \<open>\<^verbatim>\<open>UPath(p).name\<close>: the last component, the empty string for \<^verbatim>\<open>"."\<close>.\<close>

definition name :: "path \<Rightarrow> string" where
  "name p = (if p = [] then [] else last p)"

text \<open>\<^verbatim>\<open>UPath(p).parent\<close>; the parent of \<^verbatim>\<open>"."\<close> is \<^verbatim>\<open>"."\<close>.\<close>

definition parent :: "path \<Rightarrow> path" where
  "parent p = butlast p"

text \<open>\<^verbatim>\<open>p / s\<close> for a name \<open>s\<close> without separator; joining the empty string changes nothing.\<close>

definition joinpath :: "path \<Rightarrow> string \<Rightarrow> path" where
  "joinpath p s = (if s = [] then p else p @ [s])"

text \<open>\<^verbatim>\<open>s.split(c)\<close>: never empty, \<^verbatim>\<open>"".split(c) == [""]\<close>.\<close>

fun split_on :: "char \<Rightarrow> string \<Rightarrow> string list" where
  "split_on c [] = [[]]"
| "split_on c (x # xs) =
     (if x = c then [] # split_on c xs
      else (case split_on c xs of
              [] \<Rightarrow> [[x]]
            | w # ws \<Rightarrow> (x # w) # ws))"

text \<open>
  \<^verbatim>\<open>UPath(s)\<close> for a string: split at \<^verbatim>\<open>"/"\<close>, empty and \<^verbatim>\<open>"."\<close> components dropped,
  a leading separator kept as the root component.
\<close>

definition to_path :: "string \<Rightarrow> path" where
  "to_path s =
     (if s \<noteq> [] \<and> hd s = CHR ''/'' then [''/''] else [])
     @ filter (\<lambda>w. w \<noteq> [] \<and> w \<noteq> ''.'') (split_on CHR ''/'' s)"

text \<open>
  A numpy array is its shape and its elements in row-major order; an element is an
  integer or a boolean.
\<close>

datatype scalar = IntV int | BoolV bool

datatype ndarray = NDArray (shape: "nat list") (elems: "scalar list")

text \<open>The score dictionaries, in insertion order.\<close>

type_synonym label_scores = "(string \<times> real) list"

type_synonym volume_scores = "(string \<times> label_scores) list"

type_synonym submission_scores = "(string \<times> volume_scores) list"

text \<open>
  What a path of the file system holds. A Zarr group is a directory with group metadata,
  a Zarr array a directory with array metadata (shape and chunk shape) and the chunks
  (here: the elements). A zip archive holds its members under their relative paths; a
  JSON file holds the dictionary that was dumped into it (the text of the
  serialisation is not modelled).
\<close>

datatype node =
    Dir
  | Group
  | Array "nat list" "nat list" "scalar list"
  | JsonFile submission_scores
  | ZipFile "(path \<times> node) list"

text \<open>
  The file system is an association list from paths to nodes; the first binding of a
  path is the current one. Intermediate directories need no entry of their own: a path
  exists when it is the working directory or a prefix of a bound path.
\<close>

type_synonym fs = "(path \<times> node) list"

definition path_exists :: "fs \<Rightarrow> path \<Rightarrow> bool" where
  "path_exists fs p = (p = [] \<or> list_ex (prefix p) (map fst fs))"

fun is_file :: "node option \<Rightarrow> bool" where
  "is_file (Some (JsonFile _)) = True"
| "is_file (Some (ZipFile _)) = True"
| "is_file _ = False"

fun is_array :: "node option \<Rightarrow> bool" where
  "is_array (Some (Array _ _ _)) = True"
| "is_array _ = False"

text \<open>A path below a regular file cannot be created.\<close>

definition under_file :: "fs \<Rightarrow> path \<Rightarrow> bool" where
  "under_file fs p = list_ex (\<lambda>q. is_file (map_of fs q)) (butlast (prefixes p))"

text \<open>An operation returns an error or a value, and the file system it leaves.\<close>

type_synonym 'a res = "(error + 'a) \<times> fs"

definition and_then :: "'a res \<Rightarrow> ('a \<Rightarrow> fs \<Rightarrow> 'b res) \<Rightarrow> 'b res" where
  "and_then r k = (case r of (Inl e, fs) \<Rightarrow> (Inl e, fs) | (Inr x, fs) \<Rightarrow> k x fs)"

text \<open>\<^verbatim>\<open>os.makedirs(p)\<close> without \<^verbatim>\<open>exist_ok\<close>: an existing path is an error.\<close>

definition makedirs :: "fs \<Rightarrow> path \<Rightarrow> unit res" where
  "makedirs fs p =
     (if path_exists fs p then (Inl FileExistsError, fs)
      else if under_file fs p then (Inl NotADirectoryError, fs)
      else (Inr (), (p, Dir) # fs))"

section \<open>The Zarr library, as far as the module uses it\<close>


text \<open>What \<^verbatim>\<open>zarr.open\<close> and indexing return: an array (with its shape) or a group.\<close>

datatype zobj = ArrayObj "nat list" | GroupObj path

text \<open>
  \<^verbatim>\<open>zarr.open(p)\<close> in its default mode \<^verbatim>\<open>"a"\<close>: the array at \<open>p\<close> when there is one,
  otherwise the group at \<open>p\<close>, created when \<open>p\<close> holds none.
\<close>

definition zarr_open :: "fs \<Rightarrow> path \<Rightarrow> zobj res" where
  "zarr_open fs p =
     (case map_of fs p of
        Some (Array sh ch el) \<Rightarrow> (Inr (ArrayObj sh), fs)
      | Some Group \<Rightarrow> (Inr (GroupObj p), fs)
      | Some (JsonFile _) \<Rightarrow> (Inl FSPathExistNotDir, fs)
      | Some (ZipFile _) \<Rightarrow> (Inl FSPathExistNotDir, fs)
      | _ \<Rightarrow>
          if under_file fs p then (Inl NotADirectoryError, fs)
          else (Inr (GroupObj p), (p, Group) # fs))"

text \<open>
  \<^verbatim>\<open>Group.array_keys()\<close>: the names of the arrays directly in the group, sorted. An
  array object has no such attribute.
\<close>

definition array_keys :: "fs \<Rightarrow> zobj \<Rightarrow> error + string list" where
  "array_keys fs z =
     (case z of
        ArrayObj _ \<Rightarrow> Inl AttributeError
      | GroupObj p \<Rightarrow>
          Inr (sort (remdups (map last
                 (filter (\<lambda>q. q \<noteq> [] \<and> butlast q = p \<and> is_array (map_of fs q))
                    (map fst fs))))))"

text \<open>\<^verbatim>\<open>.shape\<close>: an attribute of arrays, not of groups.\<close>

definition shape_of :: "zobj \<Rightarrow> error + nat list" where
  "shape_of z = (case z of ArrayObj sh \<Rightarrow> Inr sh | GroupObj _ \<Rightarrow> Inl AttributeError)"

text \<open>\<^verbatim>\<open>zarr.group(zarr.DirectoryStore(p))\<close>: the group at \<open>p\<close>, initialised when absent.\<close>

definition zarr_group :: "fs \<Rightarrow> path \<Rightarrow> zobj res" where
  "zarr_group fs p =
     (case map_of fs p of
        Some (Array sh ch el) \<Rightarrow> (Inl ContainsArrayError, fs)
      | Some Group \<Rightarrow> (Inr (GroupObj p), fs)
      | Some (JsonFile _) \<Rightarrow> (Inl FSPathExistNotDir, fs)
      | Some (ZipFile _) \<Rightarrow> (Inl FSPathExistNotDir, fs)
      | _ \<Rightarrow>
          if under_file fs p then (Inl NotADirectoryError, fs)
          else (Inr (GroupObj p), (p, Group) # fs))"

text \<open>
  \<^verbatim>\<open>g.create_group(n, overwrite=o)\<close>: with \<open>o\<close> whatever is at the path is removed first;
  without, an array or a group there is an error.
\<close>

definition create_group :: "fs \<Rightarrow> zobj \<Rightarrow> string \<Rightarrow> bool \<Rightarrow> zobj res" where
  "create_group fs g n overwrite =
     (case g of
        ArrayObj _ \<Rightarrow> (Inl AttributeError, fs)
      | GroupObj gp \<Rightarrow>
          (let p = gp @ [n]
           in if overwrite
              then (Inr (GroupObj p), (p, Group) # filter (\<lambda>(q, _). \<not> prefix p q) fs)
              else (case map_of fs p of
                      Some (Array sh ch el) \<Rightarrow> (Inl ContainsArrayError, fs)
                    | Some Group \<Rightarrow> (Inl ContainsGroupError, fs)
                    | _ \<Rightarrow> (Inr (GroupObj p), (p, Group) # fs))))"

text \<open>\<^verbatim>\<open>g[n]\<close>: the array or group of that name in the group, or a KeyError.\<close>

definition getitem :: "fs \<Rightarrow> zobj \<Rightarrow> string \<Rightarrow> zobj res" where
  "getitem fs g n =
     (case g of
        ArrayObj _ \<Rightarrow> (Inl IndexError, fs)
      | GroupObj gp \<Rightarrow>
          (case map_of fs (gp @ [n]) of
             Some (Array sh ch el) \<Rightarrow> (Inr (ArrayObj sh), fs)
           | Some Group \<Rightarrow> (Inr (GroupObj (gp @ [n])), fs)
           | _ \<Rightarrow> (Inl KeyError, fs)))"

text \<open>
  \<^verbatim>\<open>g.create_dataset(n, data=a, chunks=(64, 64, 64))\<close>: a new array with the shape and
  the elements of \<open>a\<close>. An array or group of that name is an error; so are three chunk
  lengths for data of fewer dimensions; for data of more dimensions the chunk shape is
  completed with the remaining lengths of the shape.
\<close>

definition create_dataset :: "fs \<Rightarrow> zobj \<Rightarrow> string \<Rightarrow> ndarray \<Rightarrow> unit res" where
  "create_dataset fs g n a =
     (case g of
        ArrayObj _ \<Rightarrow> (Inl AttributeError, fs)
      | GroupObj gp \<Rightarrow>
          (case map_of fs (gp @ [n]) of
             Some (Array sh ch el) \<Rightarrow> (Inl ContainsArrayError, fs)
           | Some Group \<Rightarrow> (Inl ContainsGroupError, fs)
           | _ \<Rightarrow>
               if length (shape a) < 3 then (Inl ValueError, fs)
               else (Inr (), (gp @ [n], Array (shape a) ([64, 64, 64] @ drop 3 (shape a)) (elems a)) # fs)))"

section \<open>Packaging and scoring (\<^verbatim>\<open>utils/evaluate.py\<close>)\<close>

subsection \<open>unzip_file\<close>

text \<open>
  \<^verbatim>\<open>zipfile.ZipFile(p, "r")\<close>: the members of the archive at \<open>p\<close>.
  \<^verbatim>\<open>extractall(target)\<close>: every member is written below \<open>target\<close>, over what is there.
\<close>

definition zip_open :: "fs \<Rightarrow> path \<Rightarrow> (path \<times> node) list res" where
  "zip_open fs p =
     (case map_of fs p of
        Some (ZipFile members) \<Rightarrow> (Inr members, fs)
      | Some (JsonFile _) \<Rightarrow> (Inl BadZipFile, fs)
      | Some _ \<Rightarrow> (Inl IsADirectoryError, fs)
      | None \<Rightarrow>
          if path_exists fs p then (Inl IsADirectoryError, fs)
          else (Inl FileNotFoundError, fs))"

fun extractall :: "fs \<Rightarrow> path \<Rightarrow> (path \<times> node) list \<Rightarrow> unit res" where
  "extractall fs target [] = (Inr (), fs)"
| "extractall fs target ((rel, n) # members) =
     (if is_file (map_of fs target) \<or> under_file fs (target @ rel)
      then (Inl NotADirectoryError, fs)
      else extractall ((target @ rel, n) # fs) target members)"

text \<open>
  \<^verbatim>\<open>
  def unzip_file(zip_path):
      name = UPath(zip_path).name
      extract_path = UPath(zip_path).parent / name.split(".")[0]
      with zipfile.ZipFile(zip_path, "r") as zip_ref:
          zip_ref.extractall(extract_path)
      return extract_path
  \<close>
\<close>

definition unzip_file :: "fs \<Rightarrow> path \<Rightarrow> path res" where
  "unzip_file fs zip_path =
     (let nm = name zip_path;
          extract_path = joinpath (parent zip_path) (hd (split_on CHR ''.'' nm))
      in and_then (zip_open fs zip_path) (\<lambda>zip_ref fs1.
         and_then (extractall fs1 extract_path zip_ref) (\<lambda>_ fs2.
           (Inr extract_path, fs2))))"

subsection \<open>save_numpy_labels_to_zarr and save_numpy_binary_to_zarr\<close>

text \<open>
  \<^verbatim>\<open>labels == k\<close> on a numpy array: the boolean array of the comparisons; a boolean
  element compares as 0 or 1.
\<close>

fun eq_scalar :: "scalar \<Rightarrow> int \<Rightarrow> bool" where
  "eq_scalar (IntV v) k = (v = k)"
| "eq_scalar (BoolV b) k = ((if b then 1 else 0) = k)"

definition labels_eq :: "ndarray \<Rightarrow> int \<Rightarrow> ndarray" where
  "labels_eq a k = NDArray (shape a) (map (\<lambda>x. BoolV (eq_scalar x k)) (elems a))"

text \<open>
  The loop of \<^verbatim>\<open>save_numpy_labels_to_zarr\<close>, from index \<open>i\<close> on:
  \<^verbatim>\<open>
  for i, label_name in enumerate(label_name):
      zarr_group[test_volume_name].create_dataset(
          label_name, data=(labels == i + 1), chunks=(64, 64, 64))
  \<close>
\<close>

fun save_labels_loop ::
  "fs \<Rightarrow> zobj \<Rightarrow> string \<Rightarrow> nat \<Rightarrow> string list \<Rightarrow> ndarray \<Rightarrow> unit res" where
  "save_labels_loop fs zg test_volume_name i [] labels = (Inr (), fs)"
| "save_labels_loop fs zg test_volume_name i (label_name # rest) labels =
     (case getitem fs zg test_volume_name of
        (Inl e, fs1) \<Rightarrow> (Inl e, fs1)
      | (Inr v, fs1) \<Rightarrow>
          (case create_dataset fs1 v label_name (labels_eq labels (int i + 1)) of
             (Inl e, fs2) \<Rightarrow> (Inl e, fs2)
           | (Inr _, fs2) \<Rightarrow> save_labels_loop fs2 zg test_volume_name (Suc i) rest labels))"

text \<open>
  \<^verbatim>\<open>
  def save_numpy_labels_to_zarr(submission_path, test_volume_name, label_name, labels,
                                overwrite=False):
      if not UPath(submission_path).exists():
          os.makedirs(UPath(submission_path).parent)
          store = zarr.DirectoryStore(submission_path)
          zarr_group = zarr.group(store)
      zarr_group.create_group(test_volume_name, overwrite=overwrite)
      for ...
  \<close>
  When the path exists, \<^verbatim>\<open>zarr_group\<close> was never assigned and its first use raises
  UnboundLocalError.
\<close>

definition save_numpy_labels_to_zarr ::
  "fs \<Rightarrow> path \<Rightarrow> string \<Rightarrow> string list \<Rightarrow> ndarray \<Rightarrow> bool \<Rightarrow> unit res" where
  "save_numpy_labels_to_zarr fs submission_path test_volume_name label_name labels overwrite =
     (if \<not> path_exists fs submission_path then
        and_then (makedirs fs (parent submission_path)) (\<lambda>_ fs1.
        and_then (zarr_group fs1 submission_path) (\<lambda>zg fs2.
        and_then (create_group fs2 zg test_volume_name overwrite) (\<lambda>_ fs3.
          save_labels_loop fs3 zg test_volume_name 0 label_name labels)))
      else (Inl UnboundLocalError, fs))"

text \<open>
  The loop of \<^verbatim>\<open>save_numpy_binary_to_zarr\<close>, from index \<open>i\<close> on:
  \<^verbatim>\<open>
  for i, label_name in enumerate(label_names):
      zarr_group[test_volume_name].create_dataset(
          label_name, data=labels[i], chunks=(64, 64, 64))
  \<close>
  \<^verbatim>\<open>labels[i]\<close> past the end of the list is an IndexError.
\<close>

fun save_binary_loop ::
  "fs \<Rightarrow> zobj \<Rightarrow> string \<Rightarrow> nat \<Rightarrow> string list \<Rightarrow> ndarray list \<Rightarrow> unit res" where
  "save_binary_loop fs zg test_volume_name i [] labels = (Inr (), fs)"
| "save_binary_loop fs zg test_volume_name i (label_name # rest) labels =
     (case getitem fs zg test_volume_name of
        (Inl e, fs1) \<Rightarrow> (Inl e, fs1)
      | (Inr v, fs1) \<Rightarrow>
          if i < length labels then
            (case create_dataset fs1 v label_name (labels ! i) of
               (Inl e, fs2) \<Rightarrow> (Inl e, fs2)
             | (Inr _, fs2) \<Rightarrow> save_binary_loop fs2 zg test_volume_name (Suc i) rest labels)
          else (Inl IndexError, fs1))"

definition save_numpy_binary_to_zarr ::
  "fs \<Rightarrow> path \<Rightarrow> string \<Rightarrow> string list \<Rightarrow> ndarray list \<Rightarrow> bool \<Rightarrow> unit res" where
  "save_numpy_binary_to_zarr fs submission_path test_volume_name label_names labels overwrite =
     (if \<not> path_exists fs submission_path then
        and_then (makedirs fs (parent submission_path)) (\<lambda>_ fs1.
        and_then (zarr_group fs1 submission_path) (\<lambda>zg fs2.
        and_then (create_group fs2 zg test_volume_name overwrite) (\<lambda>_ fs3.
          save_binary_loop fs3 zg test_volume_name 0 label_names labels)))
      else (Inl UnboundLocalError, fs))"

subsection \<open>score_label, score_volume, score_submission\<close>

text \<open>
  \<^verbatim>\<open>
  def score_label(pred_label_path):
      label_name = UPath(pred_label_path).name
      volume_name = UPath(pred_label_path).parent.name
      pred_label = zarr.open(pred_label_path)
      truth_label = zarr.open(UPath("truth.zarr") / volume_name / label_name)
      assert pred_label.shape == truth_label.shape, "..."
      scores = {}
      ...
      return scores
  \<close>
\<close>

definition score_label :: "fs \<Rightarrow> path \<Rightarrow> label_scores res" where
  "score_label fs pred_label_path =
     (let label_name = name pred_label_path;
          volume_name = name (parent pred_label_path)
      in and_then (zarr_open fs pred_label_path) (\<lambda>pred_label fs1.
         and_then (zarr_open fs1 (joinpath (joinpath [''truth.zarr''] volume_name) label_name))
           (\<lambda>truth_label fs2.
         and_then (shape_of pred_label, fs2) (\<lambda>pred_shape fs3.
         and_then (shape_of truth_label, fs3) (\<lambda>truth_shape fs4.
           if pred_shape = truth_shape then (Inr [], fs4)
           else (Inl AssertionError, fs4))))))"

text \<open>
  \<^verbatim>\<open>list(set(a) & set(b))\<close>: the common elements, once each. Python leaves the order of
  a set open; the model keeps the order of \<open>a\<close>.
\<close>

definition set_intersection :: "string list \<Rightarrow> string list \<Rightarrow> string list" where
  "set_intersection a b = remdups (filter (\<lambda>x. x \<in> set b) a)"

text \<open>
  The comprehension
  \<^verbatim>\<open>{label: score_label(pred_volume_path / label) for label in labels}\<close>.
\<close>

fun score_labels :: "fs \<Rightarrow> path \<Rightarrow> string list \<Rightarrow> volume_scores res" where
  "score_labels fs pred_volume_path [] = (Inr [], fs)"
| "score_labels fs pred_volume_path (label # rest) =
     (case score_label fs (joinpath pred_volume_path label) of
        (Inl e, fs1) \<Rightarrow> (Inl e, fs1)
      | (Inr s, fs1) \<Rightarrow>
          (case score_labels fs1 pred_volume_path rest of
             (Inl e, fs2) \<Rightarrow> (Inl e, fs2)
           | (Inr d, fs2) \<Rightarrow> (Inr ((label, s) # d), fs2)))"

text \<open>
  \<^verbatim>\<open>
  def score_volume(pred_volume_path):
      pred_labels = [a for a in zarr.open(pred_volume_path).array_keys()]
      volume_name = UPath(pred_volume_path).name
      truth_labels = [a for a in zarr.open(UPath("truth.zarr") / volume_name).array_keys()]
      labels = list(set(pred_labels) & set(truth_labels))
      scores = {label: score_label(pred_volume_path / label) for label in labels}
      return scores
  \<close>
  The argument is a \<^verbatim>\<open>UPath\<close>, as \<^verbatim>\<open>score_submission\<close> passes it (the operator \<^verbatim>\<open>/\<close> is not
  defined on plain strings).
\<close>

definition score_volume :: "fs \<Rightarrow> path \<Rightarrow> volume_scores res" where
  "score_volume fs pred_volume_path =
     and_then (zarr_open fs pred_volume_path) (\<lambda>pred fs1.
     and_then (array_keys fs1 pred, fs1) (\<lambda>pred_labels fs2.
     (let volume_name = name pred_volume_path
      in and_then (zarr_open fs2 (joinpath [''truth.zarr''] volume_name)) (\<lambda>truth fs3.
         and_then (array_keys fs3 truth, fs3) (\<lambda>truth_labels fs4.
         (let labels = set_intersection pred_labels truth_labels
          in score_labels fs4 pred_volume_path labels))))))"

text \<open>
  The comprehension
  \<^verbatim>\<open>{volume: score_volume(submission_path / volume) for volume in pred_volumes}\<close>.
\<close>

fun score_volumes :: "fs \<Rightarrow> path \<Rightarrow> string list \<Rightarrow> submission_scores res" where
  "score_volumes fs submission_path [] = (Inr [], fs)"
| "score_volumes fs submission_path (volume # rest) =
     (case score_volume fs (joinpath submission_path volume) of
        (Inl e, fs1) \<Rightarrow> (Inl e, fs1)
      | (Inr s, fs1) \<Rightarrow>
          (case score_volumes fs1 submission_path rest of
             (Inl e, fs2) \<Rightarrow> (Inl e, fs2)
           | (Inr d, fs2) \<Rightarrow> (Inr ((volume, s) # d), fs2)))"

text \<open>
  \<^verbatim>\<open>with open(save_path, "w") as f: json.dump(scores, f)\<close>: the file is created or
  replaced; its directory must exist, and the path must not be a directory.
\<close>

definition json_dump :: "fs \<Rightarrow> string \<Rightarrow> submission_scores \<Rightarrow> unit res" where
  "json_dump fs save_path scores =
     (let p = to_path save_path
      in if path_exists fs p \<and> \<not> is_file (map_of fs p) then (Inl IsADirectoryError, fs)
         else if under_file fs p then (Inl NotADirectoryError, fs)
         else if \<not> path_exists fs (parent p) then (Inl FileNotFoundError, fs)
         else (Inr (), (p, JsonFile scores) # fs))"

text \<open>
  \<^verbatim>\<open>
  def score_submission(submission_path, save_path=None):
      submission_path = unzip_file(submission_path)
      submission = zarr.open(submission_path)
      pred_volumes = [a for a in submission.array_keys()]
      truth_volumes = [a for a in zarr.open("truth.zarr").array_keys()]
      volumes = list(set(pred_volumes) & set(truth_volumes))
      scores = {volume: score_volume(submission_path / volume) for volume in pred_volumes}
      if save_path:
          with open(save_path, "w") as f:
              json.dump(scores, f)
      else:
          return scores
  \<close>
  \<^verbatim>\<open>save_path\<close> is \<^verbatim>\<open>None\<close> or a string, and true when it is a string that is not empty.
  The function returns the scores, or \<^verbatim>\<open>None\<close> after writing them.
\<close>

definition score_submission ::
  "fs \<Rightarrow> path \<Rightarrow> string option \<Rightarrow> submission_scores option res" where
  "score_submission fs submission_path save_path =
     and_then (unzip_file fs submission_path) (\<lambda>submission_path fs1.
     and_then (zarr_open fs1 submission_path) (\<lambda>submission fs2.
     and_then (array_keys fs2 submission, fs2) (\<lambda>pred_volumes fs3.
     and_then (zarr_open fs3 [''truth.zarr'']) (\<lambda>truth fs4.
     and_then (array_keys fs4 truth, fs4) (\<lambda>truth_volumes fs5.
     (let volumes = set_intersection pred_volumes truth_volumes
      in and_then (score_volumes fs5 submission_path pred_volumes) (\<lambda>scores fs6.
           (case save_path of
              None \<Rightarrow> (Inr (Some scores), fs6)
            | Some sp \<Rightarrow>
                if sp \<noteq> [] then
                  and_then (json_dump fs6 sp scores) (\<lambda>_ fs7. (Inr None, fs7))
                else (Inr (Some scores), fs6)))))))))"

text \<open>
  \<^verbatim>\<open>
  if __name__ == "__main__":
      score_submission(sys.argv[1])
  \<close>
  The script takes the submission from its first argument and drops the result.
\<close>

definition main :: "fs \<Rightarrow> string list \<Rightarrow> unit res" where
  "main fs argv =
     (if length argv < 2 then (Inl IndexError, fs)
      else and_then (score_submission fs (to_path (argv ! 1)) None) (\<lambda>_ fs1. (Inr (), fs1)))"

section \<open>The documented layout of a submission\<close>


section \<open>What a scoring call reads\<close>

text \<open>
  The paths a scoring operation on \<open>p\<close> may read: the store \<^verbatim>\<open>truth.zarr\<close> of the working
  directory, the path \<open>p\<close> with everything below it, and the directories above \<open>p\<close>. Two file
  systems are the same on a set of paths when they hold the same there; two results are
  the same when the returned values (or errors) are equal and the file systems left behind
  are still the same on the set.
\<close>

definition consulted :: "path \<Rightarrow> path set" where
  "consulted p = {q. prefix [''truth.zarr''] q \<or> prefix p q \<or> prefix q p}"

definition same_on :: "path set \<Rightarrow> fs \<Rightarrow> fs \<Rightarrow> bool" where
  "same_on S fs fs' \<longleftrightarrow> (\<forall>q \<in> S. map_of fs q = map_of fs' q)"


section \<open>Properties of the loss wrapper\<close>

lemma finite_vals_append: "finite_vals (xs @ ys) = finite_vals xs @ finite_vals ys"
  by (induction xs rule: finite_vals.induct) simp_all

text \<open>
  C10. The constructor always builds the wrapped loss function with
  \<^verbatim>\<open>reduction="none"\<close>: whatever value the caller gave for \<^verbatim>\<open>reduction\<close>, the class
  receives \<^verbatim>\<open>"none"\<close>, no error or warning is raised for the overridden value, the result
  is the same wrapper as without it, and the stored keyword arguments hold
  \<^verbatim>\<open>"none"\<close> under \<^verbatim>\<open>reduction\<close>.
\<close>

theorem init_overrides_reduction:
  "init cls (AList.update ''reduction'' v kw) = init cls kw
   \<and> init cls kw =
       map_sum id (\<lambda>f. \<lparr>kwargs = AList.update ''reduction'' (PyStr ''none'') kw, loss_fn = f\<rparr>)
         (cls (AList.update ''reduction'' (PyStr ''none'') kw))
   \<and> map_of (AList.update ''reduction'' (PyStr ''none'') kw) ''reduction'' = Some (PyStr ''none'')"
  by (simp add: init_def Let_def update_conv' split: sum.split)

lemma nan_to_num1_id: "a \<noteq> NaN \<Longrightarrow> nan_to_num1 v a = a"
  by (cases a) simp_all

lemma nan_to_num_id: "NaN \<notin> set t \<Longrightarrow> nan_to_num v t = t"
  unfolding nan_to_num_def
  by (induction t) (auto simp: nan_to_num1_id)

lemma mask_all_true: "NaN \<notin> set t \<Longrightarrow> logical_not (isnan t) = replicate (length t) True"
  unfolding logical_not_def isnan_def by (induction t) auto

lemma mul_true: "length l = n \<Longrightarrow> map2 mul_bool l (replicate n True) = l"
proof (induction l arbitrary: n)
  case Nil
  then show ?case by simp
next
  case (Cons a l)
  then show ?case by (cases n; cases a) auto
qed

lemma finite_vals_length: "NaN \<notin> set l \<Longrightarrow> length (finite_vals l) = length l"
  by (induction l rule: finite_vals.induct) auto

lemma nanmean_mean: "NaN \<notin> set l \<Longrightarrow> l \<noteq> [] \<Longrightarrow> nanmean l = mean l"
  using finite_vals_length[of l] by (auto simp: nanmean_def mean_def Let_def)

text \<open>
  Where the target has no NaN (and the loss function returns none), the wrapper's loss
  is the plain mean of the element-wise loss.
\<close>

lemma calc_loss_without_nan:
  assumes "NaN \<notin> set target" "length (loss_fn self outputs target) = length target"
    "NaN \<notin> set (loss_fn self outputs target)" "target \<noteq> []"
  shows "calc_loss self outputs target = Inr (mean (loss_fn self outputs target))"
proof -
  have "loss_fn self outputs target \<noteq> []" using assms by auto
  then show ?thesis
    using assms
    by (simp add: calc_loss_def nan_to_num_id mask_all_true tensor_mul_def mul_true
        nanmean_mean Let_def)
qed

lemma masked_sum:
  "length l = length t \<Longrightarrow> NaN \<notin> set l \<Longrightarrow>
   sum_list (finite_vals (map2 mul_bool l (logical_not (isnan t))))
     = sum_list (finite_vals (valid_losses l t))
   \<and> length (finite_vals (map2 mul_bool l (logical_not (isnan t)))) = length t"
proof (induction l t rule: list_induct2)
  case Nil
  then show ?case by (simp add: logical_not_def isnan_def)
next
  case (Cons x xs y ys)
  then show ?case by (cases x) (auto simp: logical_not_def isnan_def)
qed

text \<open>
  What \<^verbatim>\<open>calc_loss\<close> computes in general: the masked positions are set to 0, not
  removed, so the sum of the losses at the valid positions is divided by the number of
  all positions.
\<close>

lemma calc_loss_divides_by_all:
  assumes "length (loss_fn self outputs (nan_to_num 0 target)) = length target"
    and "NaN \<notin> set (loss_fn self outputs (nan_to_num 0 target))" and "target \<noteq> []"
  shows "calc_loss self outputs target =
     Inr (Val (sum_list (finite_vals
                 (valid_losses (loss_fn self outputs (nan_to_num 0 target)) target))
               / real (length target)))"
proof -
  let ?l = "loss_fn self outputs (nan_to_num 0 target)"
  have len: "length ?l = length (logical_not (isnan target))"
    using assms(1) by (simp add: logical_not_def isnan_def)
  have ne: "finite_vals (map2 mul_bool ?l (logical_not (isnan target))) \<noteq> []"
    using masked_sum[OF assms(1) assms(2)] assms(3) by auto
  show ?thesis
    using masked_sum[OF assms(1) assms(2)] len ne
    by (simp add: calc_loss_def tensor_mul_def nanmean_def Let_def)
qed

text \<open>
  C2. The claim: \<^verbatim>\<open>calc_loss\<close> is the element-wise loss averaged over exactly the
  positions where the target is not NaN. The code differs. With the mean squared error,
  outputs \<open>[1, 1]\<close> and target \<open>[0, NaN]\<close>, the element-wise loss at the one valid position
  is 1, and so is its average over the valid positions; \<^verbatim>\<open>calc_loss\<close> returns 1/2,
  because the masked position enters the mean as a 0.
\<close>

theorem calc_loss_counts_masked_positions:
  "\<exists>w. init MSELoss [] = Inr w
     \<and> calc_loss w [Val 1, Val 1] [Val 0, NaN] = Inr (Val (1 / 2))
     \<and> documented_loss (loss_fn w) [Val 1, Val 1] [Val 0, NaN] = Val 1"
  by (simp add: init_def MSELoss_def calc_loss_def nan_to_num_def isnan_def logical_not_def
      tensor_mul_def nanmean_def documented_loss_def mean_def Let_def)

section \<open>Properties of packaging and scoring\<close>

subsection \<open>Sequencing and opening\<close>

lemma and_then_Inl: "and_then (Inl e, fs) k = (Inl e, fs)"
  by (simp add: and_then_def)

lemma and_then_Inr: "and_then (Inr x, fs) k = k x fs"
  by (simp add: and_then_def)


lemma zarr_open_array:
  "map_of fs p = Some (Array sh ch el) \<Longrightarrow> zarr_open fs p = (Inr (ArrayObj sh), fs)"
  by (simp add: zarr_open_def)



subsection \<open>score_label\<close>

text \<open>
  C8. When the predicted label volume and the ground-truth label volume are arrays of
  the same shape, \<^verbatim>\<open>score_label\<close> returns the empty dictionary and leaves the file system
  as it was: no metric is computed.
\<close>

theorem score_label_equal_shapes:
  assumes "map_of fs pred_label_path = Some (Array sh ch el)"
    and "map_of fs (joinpath (joinpath [''truth.zarr''] (name (parent pred_label_path)))
            (name pred_label_path)) = Some (Array sh ch' el')"
  shows "score_label fs pred_label_path = (Inr [], fs)"
  using assms
  by (simp add: score_label_def Let_def zarr_open_array and_then_Inr shape_of_def)

theorem score_label_equal_shapes_witness:
  "score_label
     [([''pred.zarr'', ''vol'', ''mito''], Array [1, 1, 2] [64, 64, 64] [IntV 0, IntV 1]),
      ([''truth.zarr'', ''vol'', ''mito''], Array [1, 1, 2] [64, 64, 64] [IntV 1, IntV 1])]
     [''pred.zarr'', ''vol'', ''mito'']
   = (Inr [],
     [([''pred.zarr'', ''vol'', ''mito''], Array [1, 1, 2] [64, 64, 64] [IntV 0, IntV 1]),
      ([''truth.zarr'', ''vol'', ''mito''], Array [1, 1, 2] [64, 64, 64] [IntV 1, IntV 1])])"
  by (rule score_label_equal_shapes) (simp_all add: joinpath_def name_def parent_def)

subsection \<open>The packaging helpers on an existing path\<close>

text \<open>
  C9. When the submission path exists, both helpers fail with UnboundLocalError and the
  file system is unchanged: the store and its group are only created when the path does
  not exist.
\<close>

theorem save_fails_on_existing_path:
  assumes "path_exists fs submission_path"
  shows "save_numpy_labels_to_zarr fs submission_path test_volume_name label_name labels overwrite
           = (Inl UnboundLocalError, fs)
       \<and> save_numpy_binary_to_zarr fs submission_path test_volume_name label_names labels_list overwrite
           = (Inl UnboundLocalError, fs)"
  using assms by (simp add: save_numpy_labels_to_zarr_def save_numpy_binary_to_zarr_def)

theorem save_fails_on_existing_path_witness:
  "path_exists [([''submission.zarr''], Group)] [''submission.zarr'']
   \<and> save_numpy_labels_to_zarr [([''submission.zarr''], Group)] [''submission.zarr''] ''vol2''
         [''mito''] (NDArray [1, 1, 2] [IntV 0, IntV 1]) False
       = (Inl UnboundLocalError, [([''submission.zarr''], Group)])
   \<and> save_numpy_binary_to_zarr [([''submission.zarr''], Group)] [''submission.zarr''] ''vol2''
         [''mito''] [NDArray [1, 1, 2] [IntV 0, IntV 1]] False
       = (Inl UnboundLocalError, [([''submission.zarr''], Group)])"
proof -
  have h: "path_exists [([''submission.zarr''], Group)] [''submission.zarr'']"
    by (simp add: path_exists_def)
  show ?thesis
    using h save_fails_on_existing_path [OF h, of "''vol2''" "[''mito'']"
        "NDArray [1, 1, 2] [IntV 0, IntV 1]" False "[''mito'']"
        "[NDArray [1, 1, 2] [IntV 0, IntV 1]]"]
    by simp
qed

subsection \<open>Where an assertion can fail\<close>








lemma json_dump_no_assert: "fst (json_dump fs sp sc) \<noteq> Inl AssertionError"
  by (auto simp: json_dump_def Let_def)












subsection \<open>Facts about the file system\<close>

lemma not_exists_map_of:
  assumes "\<not> path_exists fs p" "prefix p q"
  shows "map_of fs q = None"
proof -
  have "q \<notin> fst ` set fs"
    using assms by (auto simp: path_exists_def list_ex_iff)
  then show ?thesis by (simp add: map_of_eq_None_iff)
qed

lemma not_exists_nonempty: "\<not> path_exists fs p \<Longrightarrow> p \<noteq> []"
  by (auto simp: path_exists_def)

lemma not_exists_child:
  assumes "\<not> path_exists fs (parent p)"
  shows "\<not> path_exists fs p"
proof -
  have "prefix (butlast p) p" by (simp add: prefixeq_butlast)
  then have "\<And>q. prefix p q \<Longrightarrow> prefix (butlast p) q"
    using prefix_order.order_trans by blast
  moreover have "p \<noteq> []" using assms by (auto simp: path_exists_def parent_def)
  ultimately show ?thesis
    using assms by (auto simp: path_exists_def parent_def list_ex_iff)
qed

lemma set_butlast_distinct:
  "distinct xs \<Longrightarrow> xs \<noteq> [] \<Longrightarrow> set (butlast xs) = set xs - {last xs}"
  by (cases xs rule: rev_cases) auto

lemma set_proper_prefixes: "set (butlast (prefixes p)) = {q. prefix q p \<and> q \<noteq> p}"
proof -
  have "set (butlast (prefixes p)) = set (prefixes p) - {last (prefixes p)}"
    by (rule set_butlast_distinct) (simp_all add: distinct_prefixes)
  also have "\<dots> = {q. prefix q p \<and> q \<noteq> p}"
    by (auto simp: in_set_prefixes)
  finally show ?thesis .
qed

lemma under_file_iff:
  "under_file fs p \<longleftrightarrow> (\<exists>q. prefix q p \<and> q \<noteq> p \<and> is_file (map_of fs q))"
  unfolding under_file_def list_ex_iff set_proper_prefixes by blast

lemma prefix_butlast: "prefix q p \<Longrightarrow> q \<noteq> p \<Longrightarrow> prefix q (butlast p)"
proof (cases p rule: rev_cases)
  case Nil
  assume "prefix q p" "q \<noteq> p"
  with Nil show ?thesis by simp
next
  case (snoc xs x)
  assume "prefix q p" "q \<noteq> p"
  with snoc show ?thesis by (simp add: prefix_snoc)
qed

lemma under_file_after_makedirs:
  assumes "\<not> under_file fs (parent p)"
  shows "\<not> under_file ((parent p, Dir) # fs) p"
proof
  assume "under_file ((parent p, Dir) # fs) p"
  then obtain q where q: "prefix q p" "q \<noteq> p" "is_file (map_of ((parent p, Dir) # fs) q)"
    unfolding under_file_iff by blast
  have ne: "q \<noteq> parent p"
  proof
    assume "q = parent p"
    with q(3) show False by simp
  qed
  then have f: "is_file (map_of fs q)" using q(3) by simp
  have "prefix q (parent p)"
    using q(1) q(2) by (simp add: parent_def prefix_butlast)
  with ne f have "under_file fs (parent p)"
    unfolding under_file_iff by blast
  with assms show False by simp
qed

subsection \<open>Packaging into a fresh store\<close>




lemma array_keys_set:
  "set (map last (filter (\<lambda>q. q \<noteq> [] \<and> butlast q = p \<and> is_array (map_of fs q)) (map fst fs)))
     = {n. is_array (map_of fs (p @ [n]))}"
  (is "?L = ?R")
proof (intro set_eqI iffI)
  fix n assume "n \<in> ?L"
  then obtain q where q: "q \<in> fst ` set fs" "q \<noteq> []" "butlast q = p" "is_array (map_of fs q)"
    "n = last q"
    by auto
  then have "p @ [n] = q" using append_butlast_last_id[of q] by simp
  with q(4) show "n \<in> ?R" by simp
next
  fix n assume "n \<in> ?R"
  then have a: "is_array (map_of fs (p @ [n]))" by simp
  then have "map_of fs (p @ [n]) \<noteq> None" by (cases "map_of fs (p @ [n])") simp_all
  then have "p @ [n] \<in> fst ` set fs" by (simp add: map_of_eq_None_iff)
  with a have "p @ [n] \<in> set (filter (\<lambda>q. q \<noteq> [] \<and> butlast q = p \<and> is_array (map_of fs q)) (map fst fs))"
    by simp
  then have "last (p @ [n]) \<in> ?L" unfolding set_map by (rule imageI)
  then show "n \<in> ?L" by simp
qed

lemma array_keys_group:
  "array_keys fs (GroupObj p) = Inr (sorted_list_of_set {n. is_array (map_of fs (p @ [n]))})"
proof -
  have "sort (remdups (map last (filter (\<lambda>q. q \<noteq> [] \<and> butlast q = p \<and> is_array (map_of fs q)) (map fst fs))))
      = sorted_list_of_set {n. is_array (map_of fs (p @ [n]))}"
    unfolding array_keys_set[symmetric] by (rule sorted_list_of_set_sort_remdups[symmetric])
  then show ?thesis by (simp add: array_keys_def)
qed

lemma filter_not_under:
  assumes "\<not> path_exists fs p"
  shows "filter (\<lambda>(q, _). \<not> prefix (p @ [v]) q) fs = fs"
proof -
  have "\<And>q n. (q, n) \<in> set fs \<Longrightarrow> \<not> prefix (p @ [v]) q"
  proof
    fix q n assume "(q, n) \<in> set fs" "prefix (p @ [v]) q"
    then have "q \<in> set (map fst fs)" "prefix p q"
      by (auto simp: prefix_def intro: rev_image_eqI)
    with assms show False by (auto simp: path_exists_def list_ex_iff)
  qed
  then show ?thesis by (auto simp: filter_id_conv)
qed

lemma parent_neq: "p \<noteq> [] \<Longrightarrow> parent p \<noteq> p" "parent p \<noteq> p @ [v]" "parent p \<noteq> p @ [v] @ [n]"
proof -
  have "length (parent p) \<le> length p" by (simp add: parent_def)
  then show "parent p \<noteq> p @ [v]" "parent p \<noteq> p @ [v] @ [n]"
    by (auto dest: arg_cong[where f=length])
  assume "p \<noteq> []"
  then have "length (parent p) < length p" by (simp add: parent_def)
  then show "parent p \<noteq> p" by auto
qed

lemma not_prefix_snoc_parent: "\<not> prefix (p @ [v]) (parent p)" "\<not> prefix (p @ [v]) p"
  by (auto simp: parent_def dest!: prefix_length_le)

lemma fresh_store_steps:
  assumes "\<not> path_exists fs (parent sp)" "\<not> under_file fs (parent sp)"
  shows "and_then (makedirs fs (parent sp)) (\<lambda>_ fs1.
         and_then (zarr_group fs1 sp) (\<lambda>zg fs2.
         and_then (create_group fs2 zg vol ow) (\<lambda>_ fs3. k zg fs3)))
       = k (GroupObj sp) ((sp @ [vol], Group) # (sp, Group) # (parent sp, Dir) # fs)"
proof -
  let ?fs1 = "(parent sp, Dir) # fs"
  let ?fs2 = "(sp, Group) # ?fs1"
  have ne: "\<not> path_exists fs sp" using assms(1) by (rule not_exists_child)
  then have sp: "sp \<noteq> []" by (rule not_exists_nonempty)
  have m: "makedirs fs (parent sp) = (Inr (), ?fs1)"
    using assms by (simp add: makedirs_def)
  have "map_of fs sp = None" using ne by (rule not_exists_map_of) simp
  then have l1: "map_of ?fs1 sp = None" using parent_neq(1)[OF sp] by simp
  have "\<not> under_file ?fs1 sp" using assms(2) by (rule under_file_after_makedirs)
  with l1 have g: "zarr_group ?fs1 sp = (Inr (GroupObj sp), ?fs2)"
    by (simp add: zarr_group_def)
  have "map_of fs (sp @ [vol]) = None" using ne by (rule not_exists_map_of) simp
  then have l2: "map_of ?fs2 (sp @ [vol]) = None" using parent_neq(2)[of sp vol] by simp
  have f: "filter (\<lambda>(q, _). \<not> prefix (sp @ [vol]) q) ?fs2 = ?fs2"
    using filter_not_under[OF ne, of vol] not_prefix_snoc_parent[of sp vol] by simp
  have c: "create_group ?fs2 (GroupObj sp) vol ow = (Inr (GroupObj (sp @ [vol])), (sp @ [vol], Group) # ?fs2)"
    using l2 f by (simp add: create_group_def Let_def)
  show ?thesis
    unfolding m and_then_Inr g c ..
qed






text \<open>
  A fresh submission path whose parent directory exists (as in the docstring's example
  \<^verbatim>\<open>'submission.zarr'\<close>, whose parent is the working directory) makes \<^verbatim>\<open>os.makedirs\<close>
  fail.
\<close>

lemma save_fails_when_parent_exists:
  assumes "\<not> path_exists fs submission_path" "path_exists fs (parent submission_path)"
  shows "save_numpy_binary_to_zarr fs submission_path test_volume_name label_names labels overwrite
           = (Inl FileExistsError, fs)"
    and "save_numpy_labels_to_zarr fs submission_path test_volume_name label_names labels' overwrite
           = (Inl FileExistsError, fs)"
  using assms
  by (simp_all add: save_numpy_binary_to_zarr_def save_numpy_labels_to_zarr_def makedirs_def and_then_Inl)

subsection \<open>The layout written by the packaging helpers\<close>

lemma create_dataset_success:
  assumes "create_dataset fs v n a = (Inr (), fs')"
  shows "\<exists>gp. v = GroupObj gp
     \<and> fs' = (gp @ [n], Array (shape a) ([64, 64, 64] @ drop 3 (shape a)) (elems a)) # fs"
  using assms
  by (cases v) (auto simp: create_dataset_def split: option.splits node.splits if_splits)

lemma getitem_success:
  assumes "getitem fs (GroupObj gp) n = (Inr v, fs')"
  shows "fs' = fs \<and> (v = GroupObj (gp @ [n]) \<or> (\<exists>sh. v = ArrayObj sh))"
  using assms
  by (auto simp: getitem_def split: option.splits node.splits)

lemma dataset_step:
  assumes g: "getitem fs (GroupObj gp) vol = (Inr v, fs1)"
    and c: "create_dataset fs1 v n a = (Inr (), fs2)"
  shows "fs2 = (gp @ [vol] @ [n], Array (shape a) ([64, 64, 64] @ drop 3 (shape a)) (elems a)) # fs"
proof -
  from getitem_success[OF g] have 1: "fs1 = fs" and 2: "v = GroupObj (gp @ [vol]) \<or> (\<exists>sh. v = ArrayObj sh)"
    by simp_all
  from create_dataset_success[OF c] obtain gp' where 3: "v = GroupObj gp'"
    and 4: "fs2 = (gp' @ [n], Array (shape a) ([64, 64, 64] @ drop 3 (shape a)) (elems a)) # fs1"
    by (elim exE conjE)
  from 2 3 have "gp' = gp @ [vol]" by auto
  with 1 4 show ?thesis by simp
qed




lemma save_binary_success_fresh:
  assumes "save_numpy_binary_to_zarr fs sp vol names labels ow = (Inr (), fs')"
  shows "\<not> path_exists fs (parent sp)" "\<not> under_file fs (parent sp)"
  using assms
  by (auto simp: save_numpy_binary_to_zarr_def makedirs_def and_then_Inl split: if_splits)

lemma save_labels_success_fresh:
  assumes "save_numpy_labels_to_zarr fs sp vol names labels ow = (Inr (), fs')"
  shows "\<not> path_exists fs (parent sp)" "\<not> under_file fs (parent sp)"
  using assms
  by (auto simp: save_numpy_labels_to_zarr_def makedirs_def and_then_Inl split: if_splits)






subsection \<open>The scoring operations read the prediction and truth.zarr only\<close>


lemma same_on_subset: "same_on S fs fs' \<Longrightarrow> T \<subseteq> S \<Longrightarrow> same_on T fs fs'"
  by (auto simp: same_on_def)



lemma prefixes_in_consulted:
  assumes "prefix P p" "prefix q p"
  shows "q \<in> consulted P"
proof -
  from assms have "prefix q P \<or> prefix P q" by (rule prefix_same_cases[THEN disjE]) simp_all
  then show ?thesis by (auto simp: consulted_def)
qed


lemma consulted_mono: "prefix P p \<Longrightarrow> consulted p \<subseteq> consulted P"
proof
  fix q assume P: "prefix P p" and "q \<in> consulted p"
  then consider "prefix [''truth.zarr''] q" | "prefix p q" | "prefix q p"
    by (auto simp: consulted_def)
  then show "q \<in> consulted P"
  proof cases
    case 1
    then show ?thesis by (simp add: consulted_def)
  next
    case 2
    with P have "prefix P q" by (rule prefix_order.trans)
    then show ?thesis by (simp add: consulted_def)
  next
    case 3
    with P show ?thesis by (rule prefixes_in_consulted)
  qed
qed











lemma zarr_open_obj:
  assumes "fst (zarr_open fs p) = Inr z"
  shows "\<forall>g. z = GroupObj g \<longrightarrow> g = p"
  using assms
  by (auto simp: zarr_open_def split: option.splits node.splits if_splits)
















lemma fst_and_then_Inr:
  "fst (and_then r k) = Inr y \<longleftrightarrow> (\<exists>x. fst r = Inr x \<and> fst (k x (snd r)) = Inr y)"
  by (cases r; cases "fst r") (auto simp: and_then_def)






subsection \<open>The result of score_submission and the save path\<close>

lemma and_then_assoc:
  "and_then (and_then m f) g = and_then m (\<lambda>x s. and_then (f x s) g)"
  by (cases m; cases "fst m") (auto simp: and_then_def)

lemma score_submission_after_scoring:
  "score_submission fs submission_path save_path =
     and_then (score_submission fs submission_path None) (\<lambda>r fs6.
       case r of
         None \<Rightarrow> (Inr None, fs6)
       | Some scores \<Rightarrow>
           (case save_path of
              None \<Rightarrow> (Inr (Some scores), fs6)
            | Some sp \<Rightarrow>
                if sp \<noteq> [] then
                  and_then (json_dump fs6 sp scores) (\<lambda>_ fs7. (Inr None, fs7))
                else (Inr (Some scores), fs6)))"
  by (simp add: score_submission_def Let_def and_then_assoc and_then_Inr)

lemma score_submission_returns_scores:
  assumes "score_submission fs submission_path None = (Inr r, fs1)"
  shows "\<exists>scores. r = Some scores"
proof -
  from assms have "fst (score_submission fs submission_path None) = Inr r" by simp
  then show ?thesis
    by (auto simp: score_submission_def Let_def fst_and_then_Inr)
qed

lemma json_dump_writes:
  assumes "\<not> (path_exists fs (to_path save_path) \<and> \<not> is_file (map_of fs (to_path save_path)))"
    and "\<not> under_file fs (to_path save_path)"
    and "path_exists fs (parent (to_path save_path))"
  shows "json_dump fs save_path scores = (Inr (), (to_path save_path, JsonFile scores) # fs)"
  using assms by (simp add: json_dump_def Let_def)

text \<open>
  C6. \<^verbatim>\<open>score_submission\<close> takes the submission path and an optional save path. Whenever
  the call without save path returns, it returns the scores dictionary (never \<^verbatim>\<open>None\<close>);
  so does the call with the empty string as save path. With a save path that can be
  written (not empty, not a directory, in an existing directory) the call returns
  \<^verbatim>\<open>None\<close> and leaves, at that path, a JSON file holding the same dictionary. The script
  passes its first argument as the submission path and fails without one.
\<close>

theorem score_submission_save_path:
  assumes "score_submission fs submission_path None = (Inr r, fs1)"
  shows "\<exists>scores. r = Some scores
     \<and> score_submission fs submission_path (Some []) = (Inr (Some scores), fs1)
     \<and> (save_path \<noteq> []
          \<and> \<not> (path_exists fs1 (to_path save_path) \<and> \<not> is_file (map_of fs1 (to_path save_path)))
          \<and> \<not> under_file fs1 (to_path save_path)
          \<and> path_exists fs1 (parent (to_path save_path))
        \<longrightarrow> score_submission fs submission_path (Some save_path)
            = (Inr None, (to_path save_path, JsonFile scores) # fs1))
     \<and> main fs [prog, arg]
          = and_then (score_submission fs (to_path arg) None) (\<lambda>_ fs'. (Inr (), fs'))
     \<and> main fs [prog] = (Inl IndexError, fs)"
proof -
  from score_submission_returns_scores[OF assms] obtain scores where r: "r = Some scores" ..
  have e: "score_submission fs submission_path (Some []) = (Inr (Some scores), fs1)"
    unfolding score_submission_after_scoring[of fs submission_path "Some []"] assms r
    by (simp add: and_then_Inr)
  have w: "save_path \<noteq> []
          \<and> \<not> (path_exists fs1 (to_path save_path) \<and> \<not> is_file (map_of fs1 (to_path save_path)))
          \<and> \<not> under_file fs1 (to_path save_path)
          \<and> path_exists fs1 (parent (to_path save_path))
        \<longrightarrow> score_submission fs submission_path (Some save_path)
            = (Inr None, (to_path save_path, JsonFile scores) # fs1)"
  proof
    assume a: "save_path \<noteq> []
          \<and> \<not> (path_exists fs1 (to_path save_path) \<and> \<not> is_file (map_of fs1 (to_path save_path)))
          \<and> \<not> under_file fs1 (to_path save_path)
          \<and> path_exists fs1 (parent (to_path save_path))"
    then have j: "json_dump fs1 save_path scores = (Inr (), (to_path save_path, JsonFile scores) # fs1)"
      by (intro json_dump_writes) simp_all
    show "score_submission fs submission_path (Some save_path)
            = (Inr None, (to_path save_path, JsonFile scores) # fs1)"
      unfolding score_submission_after_scoring[of fs submission_path "Some save_path"] assms r
      using a j by (simp add: and_then_Inr)
  qed
  have m1: "main fs [prog, arg]
          = and_then (score_submission fs (to_path arg) None) (\<lambda>_ fs'. (Inr (), fs'))"
    by (simp add: main_def)
  have m2: "main fs [prog] = (Inl IndexError, fs)" by (simp add: main_def)
  from r e w m1 m2 show ?thesis by (intro exI[of _ scores] conjI)
qed

lemma to_path_scores: "to_path ''scores.json'' = [''scores.json'']"
  by (simp add: to_path_def)

lemma score_submission_example:
  "score_submission
     [([''submission.zip''],
        ZipFile [([''submission.zarr''], Group), ([''submission.zarr'', ''vol''], Group),
                 ([''submission.zarr'', ''vol'', ''mito''], Array [2, 2, 2] [64, 64, 64] [IntV 0, IntV 1, IntV 0, IntV 1, IntV 0, IntV 0, IntV 1, IntV 1])])]
     [''submission.zip''] None
   = (Inr (Some []),
      [([''truth.zarr''], Group), ([''submission''], Group),
       ([''submission'', ''submission.zarr'', ''vol'', ''mito''], Array [2, 2, 2] [64, 64, 64] [IntV 0, IntV 1, IntV 0, IntV 1, IntV 0, IntV 0, IntV 1, IntV 1]),
       ([''submission'', ''submission.zarr'', ''vol''], Group),
       ([''submission'', ''submission.zarr''], Group),
       ([''submission.zip''],
        ZipFile [([''submission.zarr''], Group), ([''submission.zarr'', ''vol''], Group),
                 ([''submission.zarr'', ''vol'', ''mito''], Array [2, 2, 2] [64, 64, 64] [IntV 0, IntV 1, IntV 0, IntV 1, IntV 0, IntV 0, IntV 1, IntV 1])])])"
  by (simp add: score_submission_def unzip_file_def zip_open_def zarr_open_def under_file_def
      array_keys_def and_then_def set_intersection_def joinpath_def name_def parent_def Let_def)

theorem score_submission_save_path_witness:
  "score_submission
     [([''submission.zip''],
        ZipFile [([''submission.zarr''], Group), ([''submission.zarr'', ''vol''], Group),
                 ([''submission.zarr'', ''vol'', ''mito''], Array [2, 2, 2] [64, 64, 64] [IntV 0, IntV 1, IntV 0, IntV 1, IntV 0, IntV 0, IntV 1, IntV 1])])]
     [''submission.zip''] (Some ''scores.json'')
   = (Inr None,
      [([''scores.json''], JsonFile []),
       ([''truth.zarr''], Group), ([''submission''], Group),
       ([''submission'', ''submission.zarr'', ''vol'', ''mito''], Array [2, 2, 2] [64, 64, 64] [IntV 0, IntV 1, IntV 0, IntV 1, IntV 0, IntV 0, IntV 1, IntV 1]),
       ([''submission'', ''submission.zarr'', ''vol''], Group),
       ([''submission'', ''submission.zarr''], Group),
       ([''submission.zip''],
        ZipFile [([''submission.zarr''], Group), ([''submission.zarr'', ''vol''], Group),
                 ([''submission.zarr'', ''vol'', ''mito''], Array [2, 2, 2] [64, 64, 64] [IntV 0, IntV 1, IntV 0, IntV 1, IntV 0, IntV 0, IntV 1, IntV 1])])])"
proof -
  let ?fs1 = "[([''truth.zarr''], Group), ([''submission''], Group),
       ([''submission'', ''submission.zarr'', ''vol'', ''mito''], Array [2, 2, 2] [64, 64, 64] [IntV 0, IntV 1, IntV 0, IntV 1, IntV 0, IntV 0, IntV 1, IntV 1]),
       ([''submission'', ''submission.zarr'', ''vol''], Group),
       ([''submission'', ''submission.zarr''], Group),
       ([''submission.zip''],
        ZipFile [([''submission.zarr''], Group), ([''submission.zarr'', ''vol''], Group),
                 ([''submission.zarr'', ''vol'', ''mito''], Array [2, 2, 2] [64, 64, 64] [IntV 0, IntV 1, IntV 0, IntV 1, IntV 0, IntV 0, IntV 1, IntV 1])])]"
  from score_submission_save_path [OF score_submission_example, of "''scores.json''"
      "''evaluate.py''" "''submission.zip''"]
  obtain scores where s: "Some [] = Some scores"
    and w: "''scores.json'' \<noteq> []
          \<and> \<not> (path_exists ?fs1 (to_path ''scores.json'')
               \<and> \<not> is_file (map_of ?fs1 (to_path ''scores.json'')))
          \<and> \<not> under_file ?fs1 (to_path ''scores.json'')
          \<and> path_exists ?fs1 (parent (to_path ''scores.json''))
        \<longrightarrow> score_submission
             [([''submission.zip''],
                ZipFile [([''submission.zarr''], Group), ([''submission.zarr'', ''vol''], Group),
                 ([''submission.zarr'', ''vol'', ''mito''], Array [2, 2, 2] [64, 64, 64] [IntV 0, IntV 1, IntV 0, IntV 1, IntV 0, IntV 0, IntV 1, IntV 1])])]
             [''submission.zip''] (Some ''scores.json'')
            = (Inr None, (to_path ''scores.json'', JsonFile scores) # ?fs1)"
    by (elim exE conjE)
  have c: "''scores.json'' \<noteq> []
          \<and> \<not> (path_exists ?fs1 (to_path ''scores.json'')
               \<and> \<not> is_file (map_of ?fs1 (to_path ''scores.json'')))
          \<and> \<not> under_file ?fs1 (to_path ''scores.json'')
          \<and> path_exists ?fs1 (parent (to_path ''scores.json''))"
    unfolding to_path_scores by (simp add: path_exists_def under_file_def parent_def)
  from s have "scores = []" by simp
  with w[rule_format, OF c] show ?thesis unfolding to_path_scores by simp
qed

subsection \<open>Which names are scored\<close>

lemma and_then_eq_Inr:
  "and_then m k = (Inr y, fs') \<longleftrightarrow> (\<exists>x fs1. m = (Inr x, fs1) \<and> k x fs1 = (Inr y, fs'))"
  by (cases m; cases "fst m") (auto simp: and_then_def)

lemma zarr_open_keeps_arrays:
  assumes "zarr_open fs p = (r, fs')"
  shows "is_array (map_of fs' q) = is_array (map_of fs q)"
  using assms
  by (auto simp: zarr_open_def split: option.splits node.splits if_splits)

lemma score_labels_keys:
  "score_labels fs p ls = (Inr d, fs') \<Longrightarrow> map fst d = ls"
proof (induction ls arbitrary: fs d)
  case Nil
  then show ?case by simp
next
  case (Cons l ls)
  from Cons.prems obtain s fs1 d' where "score_labels fs1 p ls = (Inr d', fs')" "d = (l, s) # d'"
    by (auto split: prod.splits sum.splits)
  with Cons.IH show ?case by simp
qed

lemma set_set_intersection: "set (set_intersection a b) = set a \<inter> set b"
  by (auto simp: set_intersection_def)

lemma finite_array_names: "finite {n. is_array (map_of fs (p @ [n]))}"
proof -
  have "{n. is_array (map_of fs (p @ [n]))}
      = set (map last (filter (\<lambda>q. q \<noteq> [] \<and> butlast q = p \<and> is_array (map_of fs q)) (map fst fs)))"
    by (rule array_keys_set[symmetric])
  then show ?thesis by simp
qed

lemma array_keys_names:
  assumes "array_keys fs (GroupObj p) = Inr ks"
  shows "set ks = {n. is_array (map_of fs (p @ [n]))}"
  using assms finite_array_names[of fs p] by (auto simp: array_keys_group)

lemma score_volume_keys:
  assumes "score_volume fs pred_volume_path = (Inr d, fs')"
  shows "set (map fst d)
     = {n. is_array (map_of fs (pred_volume_path @ [n]))}
       \<inter> {n. is_array (map_of fs (joinpath [''truth.zarr''] (name pred_volume_path) @ [n]))}"
proof -
  let ?p = pred_volume_path and ?tp = "joinpath [''truth.zarr''] (name pred_volume_path)"
  from assms obtain pred fs1 pl truth fs3 tl
    where o1: "zarr_open fs ?p = (Inr pred, fs1)"
      and k1: "array_keys fs1 pred = Inr pl"
      and o2: "zarr_open fs1 ?tp = (Inr truth, fs3)"
      and k2: "array_keys fs3 truth = Inr tl"
      and sl: "score_labels fs3 ?p (set_intersection pl tl) = (Inr d, fs')"
    unfolding score_volume_def Let_def and_then_eq_Inr by auto
  from k1 obtain g where g: "pred = GroupObj g" by (cases pred) (auto simp: array_keys_def)
  from o1 have "fst (zarr_open fs ?p) = Inr pred" by simp
  with g have g': "pred = GroupObj ?p" using zarr_open_obj by blast
  from k2 obtain h where h: "truth = GroupObj h" by (cases truth) (auto simp: array_keys_def)
  from o2 have "fst (zarr_open fs1 ?tp) = Inr truth" by simp
  with h have h': "truth = GroupObj ?tp" using zarr_open_obj by blast
  have a1: "\<And>q. is_array (map_of fs1 q) = is_array (map_of fs q)"
    using o1 by (rule zarr_open_keeps_arrays)
  have a3: "\<And>q. is_array (map_of fs3 q) = is_array (map_of fs1 q)"
    using o2 by (rule zarr_open_keeps_arrays)
  have "set pl = {n. is_array (map_of fs (?p @ [n]))}"
    using array_keys_names[OF k1[unfolded g']] a1 by simp
  moreover have "set tl = {n. is_array (map_of fs (?tp @ [n]))}"
    using array_keys_names[OF k2[unfolded h']] a1 a3 by simp
  moreover have "map fst d = set_intersection pl tl" using sl by (rule score_labels_keys)
  ultimately show ?thesis by (simp add: set_set_intersection)
qed

text \<open>
  C1. The claim holds for \<^verbatim>\<open>score_volume\<close> (\<open>score_volume_keys\<close>: the labels scored are
  the arrays present both in the predicted volume and in the ground-truth volume), and
  fails for \<^verbatim>\<open>score_submission\<close>, which computes the common volume names and then
  iterates over the predicted ones. On an archive whose root holds an array \<^verbatim>\<open>extra\<close>, with
  a ground-truth store that holds no volume, the predicted names are \<open>[extra]\<close>, the ground
  truth names and the intersection are empty, and still \<^verbatim>\<open>score_volume\<close> is called on
  \<^verbatim>\<open>extra\<close>: the call fails with AttributeError instead of returning the empty dictionary.
\<close>

theorem score_submission_scores_unmatched_volume:
  "fst (score_submission
     [([''submission.zip''],
        ZipFile [([''extra''], Array [2, 2, 2] [64, 64, 64]
                   [IntV 0, IntV 1, IntV 0, IntV 1, IntV 0, IntV 0, IntV 1, IntV 1])])]
     [''submission.zip''] None) = Inl AttributeError
   \<and> array_keys
       [([''truth.zarr''], Group), ([''submission''], Group),
        ([''submission'', ''extra''], Array [2, 2, 2] [64, 64, 64]
                   [IntV 0, IntV 1, IntV 0, IntV 1, IntV 0, IntV 0, IntV 1, IntV 1])]
       (GroupObj [''submission'']) = Inr [''extra'']
   \<and> array_keys
       [([''truth.zarr''], Group), ([''submission''], Group),
        ([''submission'', ''extra''], Array [2, 2, 2] [64, 64, 64]
                   [IntV 0, IntV 1, IntV 0, IntV 1, IntV 0, IntV 0, IntV 1, IntV 1])]
       (GroupObj [''truth.zarr'']) = Inr []
   \<and> set_intersection [''extra''] [] = []"
  by (simp add: score_submission_def unzip_file_def zip_open_def zarr_open_def under_file_def
      array_keys_def and_then_def set_intersection_def joinpath_def name_def parent_def Let_def
      score_volume_def)

subsection \<open>A store cannot receive a second test volume\<close>

text \<open>
  After either helper has succeeded the submission path exists, so every further call on
  the same path fails with UnboundLocalError: a store holds the one test volume it was
  created with.
\<close>

lemma path_exists_mono:
  assumes "path_exists fs p" "set (map fst fs) \<subseteq> set (map fst fs')"
  shows "path_exists fs' p"
proof (cases "p = []")
  case True
  then show ?thesis by (simp add: path_exists_def)
next
  case False
  with assms(1) obtain q where "q \<in> set (map fst fs)" "prefix p q"
    by (auto simp: path_exists_def list_ex_iff)
  with assms(2) have "q \<in> set (map fst fs')" "prefix p q" by auto
  then show ?thesis unfolding path_exists_def list_ex_iff by blast
qed

lemma save_binary_loop_keys:
  "save_binary_loop fs (GroupObj gp) vol i names labels = (Inr (), fs')
   \<Longrightarrow> set (map fst fs) \<subseteq> set (map fst fs')"
proof (induction names arbitrary: fs i)
  case Nil
  then show ?case by simp
next
  case (Cons n ns)
  from Cons.prems obtain v fs1 fs2 where g: "getitem fs (GroupObj gp) vol = (Inr v, fs1)"
    and c: "create_dataset fs1 v n (labels ! i) = (Inr (), fs2)"
    and r: "save_binary_loop fs2 (GroupObj gp) vol (Suc i) ns labels = (Inr (), fs')"
    by (auto split: prod.splits sum.splits if_splits)
  have "set (map fst fs) \<subseteq> set (map fst fs2)"
    unfolding dataset_step[OF g c] by auto
  also have "\<dots> \<subseteq> set (map fst fs')" using r by (rule Cons.IH)
  finally show ?case .
qed

lemma save_labels_loop_keys:
  "save_labels_loop fs (GroupObj gp) vol i names labels = (Inr (), fs')
   \<Longrightarrow> set (map fst fs) \<subseteq> set (map fst fs')"
proof (induction names arbitrary: fs i)
  case Nil
  then show ?case by simp
next
  case (Cons n ns)
  from Cons.prems obtain v fs1 fs2 where g: "getitem fs (GroupObj gp) vol = (Inr v, fs1)"
    and c: "create_dataset fs1 v n (labels_eq labels (int i + 1)) = (Inr (), fs2)"
    and r: "save_labels_loop fs2 (GroupObj gp) vol (Suc i) ns labels = (Inr (), fs')"
    by (auto split: prod.splits sum.splits if_splits)
  have "set (map fst fs) \<subseteq> set (map fst fs2)"
    unfolding dataset_step[OF g c] by auto
  also have "\<dots> \<subseteq> set (map fst fs')" using r by (rule Cons.IH)
  finally show ?case .
qed

lemma store_exists_after_save:
  assumes "save_numpy_binary_to_zarr fs sp vol names labels ow = (Inr (), fs')
         \<or> save_numpy_labels_to_zarr fs sp vol names lab ow = (Inr (), fs')"
  shows "path_exists fs' sp"
proof -
  let ?fs3 = "(sp @ [vol], Group) # (sp, Group) # (parent sp, Dir) # fs"
  have e3: "path_exists ?fs3 sp" by (simp add: path_exists_def)
  from assms show ?thesis
  proof
    assume s: "save_numpy_binary_to_zarr fs sp vol names labels ow = (Inr (), fs')"
    note fresh = save_binary_success_fresh[OF s]
    have ne: "\<not> path_exists fs sp" using fresh(1) by (rule not_exists_child)
    have "save_numpy_binary_to_zarr fs sp vol names labels ow
        = save_binary_loop ?fs3 (GroupObj sp) vol 0 names labels"
      using ne fresh_store_steps[OF fresh, of vol ow
          "\<lambda>zg fs3. save_binary_loop fs3 zg vol 0 names labels"]
      by (simp add: save_numpy_binary_to_zarr_def)
    with s have "save_binary_loop ?fs3 (GroupObj sp) vol 0 names labels = (Inr (), fs')" by simp
    then have "set (map fst ?fs3) \<subseteq> set (map fst fs')" by (rule save_binary_loop_keys)
    with e3 show ?thesis by (rule path_exists_mono)
  next
    assume s: "save_numpy_labels_to_zarr fs sp vol names lab ow = (Inr (), fs')"
    note fresh = save_labels_success_fresh[OF s]
    have ne: "\<not> path_exists fs sp" using fresh(1) by (rule not_exists_child)
    have "save_numpy_labels_to_zarr fs sp vol names lab ow
        = save_labels_loop ?fs3 (GroupObj sp) vol 0 names lab"
      using ne fresh_store_steps[OF fresh, of vol ow
          "\<lambda>zg fs3. save_labels_loop fs3 zg vol 0 names lab"]
      by (simp add: save_numpy_labels_to_zarr_def)
    with s have "save_labels_loop ?fs3 (GroupObj sp) vol 0 names lab = (Inr (), fs')" by simp
    then have "set (map fst ?fs3) \<subseteq> set (map fst fs')" by (rule save_labels_loop_keys)
    with e3 show ?thesis by (rule path_exists_mono)
  qed
qed

lemma second_volume_rejected:
  assumes "save_numpy_binary_to_zarr fs sp vol names labels ow = (Inr (), fs')
         \<or> save_numpy_labels_to_zarr fs sp vol names lab ow = (Inr (), fs')"
  shows "save_numpy_binary_to_zarr fs' sp vol2 names2 labels2 ow2 = (Inl UnboundLocalError, fs')"
    and "save_numpy_labels_to_zarr fs' sp vol2 names2 lab2 ow2 = (Inl UnboundLocalError, fs')"
  using store_exists_after_save[OF assms]
  by (simp_all add: save_numpy_binary_to_zarr_def save_numpy_labels_to_zarr_def)

end
